theory Spec2Isabelle
  imports Main "HOL-Library.Word"
begin

section \<open>JavaScript values\<close>

text \<open>
  Text that the program only compares, joins and passes on is a \<open>string\<close>: the bytes of
  the text in UTF-8, so that ASCII text is written as it is in the source. The one text
  that the program encodes itself, the \<open>content\<close> argument given to \<open>Buffer.from\<close>, is
  kept as JavaScript holds it: its UTF-16 code units.
  A number is carried as the decimal text that JavaScript prints for it, which is also
  what \<open>JSON.stringify\<close> emits. An object is the list of its own properties in order.
\<close>

type_synonym utf16 = "16 word list"

datatype jsval =
    JUndefined
  | JNull
  | JBool bool
  | JNum string
  | JStr string
  | JArr "jsval list"
  | JObj "(string \<times> jsval) list"

datatype ErrorCode = InvalidRequest | MethodNotFound | InvalidParams

record AxiosResponse =
  status :: nat
  data :: jsval

text \<open>
  What a handler can throw: the protocol errors of the SDK, the error with which the
  HTTP client rejects (\<open>response\<close> is absent when no response arrived), the
  \<open>TypeError\<close> of a property read on \<open>undefined\<close> or \<open>null\<close>, and any other error.
\<close>

datatype exn =
    McpError ErrorCode string
  | AxiosError "AxiosResponse option" string
  | TypeError string
  | Error string

fun isAxiosError :: "exn \<Rightarrow> bool" where
  "isAxiosError (AxiosError response msg) = True"
| "isAxiosError e = False"

definition nullish :: "jsval \<Rightarrow> bool" where
  "nullish v = (v = JUndefined \<or> v = JNull)"

text \<open>
  The member access \<open>v.k\<close>, for the property names this program reads (\<open>login\<close>,
  \<open>sha\<close>, \<open>message\<close>), none of which a built-in prototype defines.
\<close>

definition cannot_read :: "string \<Rightarrow> string \<Rightarrow> exn" where
  "cannot_read what k =
     TypeError (''Cannot read properties of '' @ what @ '' (reading '' @ [CHR 0x27] @ k @ [CHR 0x27] @ '')'')"

fun get_prop :: "jsval \<Rightarrow> string \<Rightarrow> exn + jsval" where
  "get_prop JUndefined k = Inl (cannot_read ''undefined'' k)"
| "get_prop JNull k = Inl (cannot_read ''null'' k)"
| "get_prop (JObj kvs) k = Inr (case map_of kvs k of None \<Rightarrow> JUndefined | Some v \<Rightarrow> v)"
| "get_prop v k = Inr JUndefined"

fun join :: "string \<Rightarrow> string list \<Rightarrow> string" where
  "join sep [] = []"
| "join sep [x] = x"
| "join sep (x # y # ys) = x @ sep @ join sep (y # ys)"

text \<open>The conversion to text that a template literal applies to \<open>${v}\<close>.\<close>

fun to_string :: "jsval \<Rightarrow> string" where
  "to_string JUndefined = ''undefined''"
| "to_string JNull = ''null''"
| "to_string (JBool b) = (if b then ''true'' else ''false'')"
| "to_string (JNum t) = t"
| "to_string (JStr s) = s"
| "to_string (JArr xs) = join '','' (map (\<lambda>x. if nullish x then [] else to_string x) xs)"
| "to_string (JObj kvs) = ''[object Object]''"

subsection \<open>JSON.stringify(value, null, 2)\<close>

definition hex_digit :: "nat \<Rightarrow> char" where
  "hex_digit n = ''0123456789abcdef'' ! (n mod 16)"

definition quote_char :: "char \<Rightarrow> string" where
  "quote_char c =
     (if c = CHR 0x22 then [CHR 0x5C, CHR 0x22]
      else if c = CHR 0x5C then [CHR 0x5C, CHR 0x5C]
      else if c = CHR 0x08 then [CHR 0x5C, CHR ''b'']
      else if c = CHR 0x0C then [CHR 0x5C, CHR ''f'']
      else if c = CHR 0x0A then [CHR 0x5C, CHR ''n'']
      else if c = CHR 0x0D then [CHR 0x5C, CHR ''r'']
      else if c = CHR 0x09 then [CHR 0x5C, CHR ''t'']
      else if (of_char c :: nat) < 0x20
        then [CHR 0x5C, CHR ''u'', CHR ''0'', CHR ''0'',
              hex_digit (of_char c div 16), hex_digit (of_char c)]
      else [c])"

definition JSON_quote :: "string \<Rightarrow> string" where
  "JSON_quote s = [CHR 0x22] @ concat (map quote_char s) @ [CHR 0x22]"

definition indent :: "nat \<Rightarrow> string" where
  "indent n = CHR 0x0A # replicate (2 * n) CHR '' ''"

text \<open>
  \<open>serialize n v\<close> is the text of \<open>v\<close> at nesting depth \<open>n\<close> with a gap of two
  spaces; \<open>None\<close> is the \<open>undefined\<close> that \<open>JSON.stringify\<close> returns for
  \<open>undefined\<close>. Inside an array \<open>undefined\<close> is written \<open>null\<close>; a property whose
  value is \<open>undefined\<close> is left out.
\<close>

fun serialize :: "nat \<Rightarrow> jsval \<Rightarrow> string option" where
  "serialize n JUndefined = None"
| "serialize n JNull = Some ''null''"
| "serialize n (JBool b) = Some (if b then ''true'' else ''false'')"
| "serialize n (JNum t) = Some t"
| "serialize n (JStr s) = Some (JSON_quote s)"
| "serialize n (JArr xs) =
     (let items = map (\<lambda>x. case serialize (Suc n) x of None \<Rightarrow> ''null'' | Some t \<Rightarrow> t) xs
      in Some (if items = [] then ''[]''
               else ''['' @ indent (Suc n) @ join ('','' @ indent (Suc n)) items @ indent n @ '']''))"
| "serialize n (JObj kvs) =
     (let props = concat (map (\<lambda>kv. case serialize (Suc n) (snd kv) of
                                       None \<Rightarrow> []
                                     | Some t \<Rightarrow> [JSON_quote (fst kv) @ '': '' @ t]) kvs)
      in Some (if props = [] then ''{}''
               else ''{'' @ indent (Suc n) @ join ('','' @ indent (Suc n)) props @ indent n @ ''}''))"

definition JSON_stringify :: "jsval \<Rightarrow> string option" where
  "JSON_stringify v = serialize 0 v"

section \<open>The upstream HTTP client\<close>

text \<open>
  A request of the client, and what awaiting it gives: the \<open>data\<close> of the response, or
  the error it rejects with. The upstream is any function from the calls made so far in
  this invocation and the next call to its outcome; a handler returns what it returns or
  throws (\<open>Inl\<close> the exception) together with the calls it made, in order.
\<close>

datatype call = Get string | Post string jsval | Put string jsval

datatype outcome = Resolved jsval | Rejected exn

type_synonym upstream = "call list \<Rightarrow> call \<Rightarrow> outcome"

section \<open>Requests and results\<close>

text \<open>
  \<open>private\<close> of the source is \<open>private_arg\<close> here, and the \<open>content\<close> of a result
  is \<open>result_content\<close>; an absent optional field is \<open>None\<close>.
\<close>

record GithubToolArguments =
  username :: "string option"
  repo_name :: "string option"
  description :: "string option"
  private_arg :: "bool option"
  file_path :: "string option"
  content :: "utf16 option"
  message :: "string option"

record CallToolRequest =
  name :: string
  arguments :: "GithubToolArguments option"

datatype content_item = TextContent "string option"

record CallToolResult =
  result_content :: "content_item list"
  isError :: "bool option"

type_synonym handled = "(exn + CallToolResult) \<times> call list"

text \<open>The protocol reads an absent \<open>isError\<close> as false.\<close>

definition is_error :: "CallToolResult \<Rightarrow> bool" where
  "is_error r = (case isError r of None \<Rightarrow> False | Some b \<Rightarrow> b)"

section \<open>Resource handlers\<close>

record ListResourcesResult =
  resources :: "jsval list"

record ListResourceTemplatesResult =
  resourceTemplates :: "jsval list"

definition ListResources :: "'request \<Rightarrow> ListResourcesResult" where
  "ListResources request = \<lparr>resources = []\<rparr>"

definition ListResourceTemplates :: "'request \<Rightarrow> ListResourceTemplatesResult" where
  "ListResourceTemplates request = \<lparr>resourceTemplates = []\<rparr>"

definition ReadResource :: "string \<Rightarrow> exn + jsval" where
  "ReadResource uri = Inl (McpError InvalidRequest (''Invalid URI format: '' @ uri))"

section \<open>Tool handlers\<close>

record Property =
  key :: string
  type :: string
  property_description :: string
  default :: jsval

record Tool =
  tool_name :: string
  tool_description :: string
  properties :: "Property list"
  required :: "string list"

definition ListTools :: "Tool list" where
  "ListTools =
    [\<lparr>tool_name = ''get_user'',
      tool_description = ''Get GitHub user information'',
      properties =
        [\<lparr>key = ''username'', type = ''string'',
          property_description = ''GitHub username'', default = JUndefined\<rparr>],
      required = [''username'']\<rparr>,
     \<lparr>tool_name = ''create_repo'',
      tool_description = ''Create a new GitHub repository'',
      properties =
        [\<lparr>key = ''repo_name'', type = ''string'',
          property_description = ''The name of the repository to create'',
          default = JUndefined\<rparr>,
         \<lparr>key = ''description'', type = ''string'',
          property_description = ''A description of the repository'',
          default = JUndefined\<rparr>,
         \<lparr>key = ''private'', type = ''boolean'',
          property_description = ''Whether the repository should be private'',
          default = JBool False\<rparr>],
      required = [''repo_name'']\<rparr>,
     \<lparr>tool_name = ''push_to_repo'',
      tool_description = ''Push content to a GitHub repository'',
      properties =
        [\<lparr>key = ''repo_name'', type = ''string'',
          property_description = ''The name of the repository to push to'',
          default = JUndefined\<rparr>,
         \<lparr>key = ''file_path'', type = ''string'',
          property_description =
            ''The path where the file should be created in the repository'',
          default = JUndefined\<rparr>,
         \<lparr>key = ''content'', type = ''string'',
          property_description = ''The content to push to the repository'',
          default = JUndefined\<rparr>,
         \<lparr>key = ''message'', type = ''string'',
          property_description = ''The commit message'',
          default = JStr ''Update via GitHub MCP''\<rparr>],
      required = [''repo_name'', ''file_path'', ''content'']\<rparr>]"

text \<open>\<open>!s\<close> for an optional string: it is absent or empty.\<close>

definition falsy :: "'a list option \<Rightarrow> bool" where
  "falsy s = (s = None \<or> s = Some [])"

definition optional :: "string option \<Rightarrow> jsval" where
  "optional s = (case s of None \<Rightarrow> JUndefined | Some t \<Rightarrow> JStr t)"

definition success_result :: "jsval \<Rightarrow> CallToolResult" where
  "success_result response_data =
     \<lparr>result_content = [TextContent (JSON_stringify response_data)], isError = None\<rparr>"

definition error_result :: "string \<Rightarrow> CallToolResult" where
  "error_result t = \<lparr>result_content = [TextContent (Some t)], isError = Some True\<rparr>"

text \<open>\<open>error.response?.data.message ?? error.message\<close>\<close>

definition error_message :: "AxiosResponse option \<Rightarrow> string \<Rightarrow> exn + jsval" where
  "error_message response msg =
     (case response of
        None \<Rightarrow> Inr (JStr msg)
      | Some r \<Rightarrow>
          (case get_prop (data r) ''message'' of
             Inl e \<Rightarrow> Inl e
           | Inr m \<Rightarrow> Inr (if nullish m then JStr msg else m)))"

text \<open>The \<open>catch (error)\<close> clause that closes each of the three handlers.\<close>

fun catch_clause :: "exn \<Rightarrow> exn + CallToolResult" where
  "catch_clause (AxiosError response msg) =
     (case error_message response msg of
        Inl e \<Rightarrow> Inl e
      | Inr m \<Rightarrow> Inr (error_result (''GitHub API error: '' @ to_string m)))"
| "catch_clause e = Inl e"

definition get_user :: "upstream \<Rightarrow> GithubToolArguments option \<Rightarrow> handled" where
  "get_user up args =
     (case args of
        None \<Rightarrow> (Inl (cannot_read ''undefined'' ''username''), [])
      | Some a \<Rightarrow>
          if falsy (username a)
          then (Inl (McpError InvalidParams ''Username is required''), [])
          else
            let c = Get (''/users/'' @ the (username a)) in
            (case up [] c of
               Resolved response_data \<Rightarrow> (Inr (success_result response_data), [c])
             | Rejected e \<Rightarrow> (catch_clause e, [c])))"

definition create_repo :: "upstream \<Rightarrow> GithubToolArguments option \<Rightarrow> handled" where
  "create_repo up args =
     (case args of
        None \<Rightarrow> (Inl (cannot_read ''undefined'' ''repo_name''), [])
      | Some a \<Rightarrow>
          if falsy (repo_name a)
          then (Inl (McpError InvalidParams ''Repository name is required''), [])
          else
            let c = Post ''/user/repos''
                      (JObj [(''name'', JStr (the (repo_name a))),
                             (''description'', optional (description a)),
                             (''private'',
                              JBool (case private_arg a of None \<Rightarrow> False | Some b \<Rightarrow> b))]) in
            (case up [] c of
               Resolved response_data \<Rightarrow> (Inr (success_result response_data), [c])
             | Rejected e \<Rightarrow> (catch_clause e, [c])))"

subsection \<open>Buffer.from(content).toString('base64')\<close>

text \<open>
  \<open>Buffer.from\<close> of a string gives its bytes in UTF-8: a high surrogate followed by a low
  one is the code point of the pair, in four bytes; any other code unit stands for itself,
  and a surrogate left alone is written as U+FFFD, the bytes \<open>EF BF BD\<close>.
\<close>

definition high_surrogate :: "nat \<Rightarrow> bool" where
  "high_surrogate n = (0xD800 \<le> n \<and> n < 0xDC00)"

definition low_surrogate :: "nat \<Rightarrow> bool" where
  "low_surrogate n = (0xDC00 \<le> n \<and> n < 0xE000)"

definition utf8_unit :: "nat \<Rightarrow> nat list" where
  "utf8_unit n =
     (if n < 0x80 then [n]
      else if n < 0x800 then [0xC0 + n div 64, 0x80 + n mod 64]
      else if high_surrogate n \<or> low_surrogate n then [0xEF, 0xBF, 0xBD]
      else [0xE0 + n div 4096, 0x80 + n div 64 mod 64, 0x80 + n mod 64])"

definition utf8_pair :: "nat \<Rightarrow> nat \<Rightarrow> nat list" where
  "utf8_pair h l =
     (let cp = 0x10000 + (h - 0xD800) * 1024 + (l - 0xDC00)
      in [0xF0 + cp div 262144, 0x80 + cp div 4096 mod 64, 0x80 + cp div 64 mod 64,
          0x80 + cp mod 64])"

fun Buffer_from :: "utf16 \<Rightarrow> nat list" where
  "Buffer_from (c # d # cs) =
     (if high_surrogate (unat c) \<and> low_surrogate (unat d)
      then utf8_pair (unat c) (unat d) @ Buffer_from cs
      else utf8_unit (unat c) @ Buffer_from (d # cs))"
| "Buffer_from [c] = utf8_unit (unat c)"
| "Buffer_from [] = []"

definition base64_alphabet :: string where
  "base64_alphabet = ''ABCDEFGHIJKLMNOPQRSTUVWXYZabcdefghijklmnopqrstuvwxyz0123456789+/''"

definition base64_char :: "nat \<Rightarrow> char" where
  "base64_char n = base64_alphabet ! n"

fun base64 :: "nat list \<Rightarrow> string" where
  "base64 (a # b # c # bs) =
     [base64_char (a div 4), base64_char (a mod 4 * 16 + b div 16),
      base64_char (b mod 16 * 4 + c div 64), base64_char (c mod 64)] @ base64 bs"
| "base64 [a, b] =
     [base64_char (a div 4), base64_char (a mod 4 * 16 + b div 16),
      base64_char (b mod 16 * 4), CHR ''='']"
| "base64 [a] = [base64_char (a div 4), base64_char (a mod 4 * 16), CHR ''='', CHR ''='']"
| "base64 [] = []"

text \<open>
  The reader of the transmitted content. First the decoder of RFC 4648 for the padded
  alphabet above; then the reading of the decoded bytes as UTF-8 text, back into code
  units, and the strings that have no surrogate left alone.
\<close>

fun index_of :: "'a \<Rightarrow> 'a list \<Rightarrow> nat option" where
  "index_of x [] = None"
| "index_of x (y # ys) = (if x = y then Some 0 else map_option Suc (index_of x ys))"

definition base64_index :: "char \<Rightarrow> nat option" where
  "base64_index ch = index_of ch base64_alphabet"

fun base64_decode :: "string \<Rightarrow> nat list option" where
  "base64_decode [] = Some []"
| "base64_decode (w # x # y # z # rest) =
     (case (base64_index w, base64_index x) of
        (Some i, Some j) \<Rightarrow>
          if rest = [] \<and> y = CHR ''='' \<and> z = CHR ''=''
          then Some [i * 4 + j div 16]
          else
            (case base64_index y of
               Some k \<Rightarrow>
                 if rest = [] \<and> z = CHR ''=''
                 then Some [i * 4 + j div 16, j mod 16 * 16 + k div 4]
                 else
                   (case (base64_index z, base64_decode rest) of
                      (Some l, Some bs) \<Rightarrow>
                        Some ([i * 4 + j div 16, j mod 16 * 16 + k div 4, k mod 4 * 64 + l] @ bs)
                    | _ \<Rightarrow> None)
             | None \<Rightarrow> None)
      | _ \<Rightarrow> None)"
| "base64_decode s = None"

fun utf8_decode :: "nat list \<Rightarrow> utf16 option" where
  "utf8_decode [] = Some []"
| "utf8_decode (b0 # bs) =
     (if b0 < 0x80 then map_option (\<lambda>cs. of_nat b0 # cs) (utf8_decode bs)
      else if b0 < 0xE0 then
        (case bs of
           b1 # r \<Rightarrow>
             map_option (\<lambda>cs. of_nat ((b0 - 0xC0) * 64 + (b1 - 0x80)) # cs) (utf8_decode r)
         | _ \<Rightarrow> None)
      else if b0 < 0xF0 then
        (case bs of
           b1 # b2 # r \<Rightarrow>
             map_option
               (\<lambda>cs. of_nat ((b0 - 0xE0) * 4096 + (b1 - 0x80) * 64 + (b2 - 0x80)) # cs)
               (utf8_decode r)
         | _ \<Rightarrow> None)
      else
        (case bs of
           b1 # b2 # b3 # r \<Rightarrow>
             (let v = (b0 - 0xF0) * 262144 + (b1 - 0x80) * 4096 + (b2 - 0x80) * 64 + (b3 - 0x80)
                      - 0x10000
              in map_option (\<lambda>cs. of_nat (0xD800 + v div 1024) # of_nat (0xDC00 + v mod 1024) # cs)
                   (utf8_decode r))
         | _ \<Rightarrow> None))"

fun well_formed :: "utf16 \<Rightarrow> bool" where
  "well_formed (c # d # cs) =
     (if high_surrogate (unat c) \<and> low_surrogate (unat d) then well_formed cs
      else \<not> high_surrogate (unat c) \<and> \<not> low_surrogate (unat c) \<and> well_formed (d # cs))"
| "well_formed [c] = (\<not> high_surrogate (unat c) \<and> \<not> low_surrogate (unat c))"
| "well_formed [] = True"

subsection \<open>push_to_repo\<close>

text \<open>
  The inner \<open>try\<close>: the lookup of the file that may already be at the path. It gives the
  \<open>sha\<close> read from the response, or the exception that the inner \<open>catch\<close> receives.
\<close>

definition existing_file :: "upstream \<Rightarrow> call list \<Rightarrow> string \<Rightarrow> exn + jsval" where
  "existing_file up before p =
     (case up before (Get p) of
        Rejected e \<Rightarrow> Inl e
      | Resolved file_data \<Rightarrow> get_prop file_data ''sha'')"

definition contents_path :: "jsval \<Rightarrow> string \<Rightarrow> string \<Rightarrow> string" where
  "contents_path user repo file = ''/repos/'' @ to_string user @ ''/'' @ repo @ ''/contents/'' @ file"

definition put_body :: "string option \<Rightarrow> utf16 \<Rightarrow> jsval \<Rightarrow> jsval" where
  "put_body msg text sha =
     JObj [(''message'', JStr (case msg of None \<Rightarrow> ''Update via GitHub MCP'' | Some m \<Rightarrow> m)),
           (''content'', JStr (base64 (Buffer_from text))),
           (''sha'', sha)]"

text \<open>The outer \<open>try\<close> block, before its \<open>catch\<close>.\<close>

definition push_to_repo_try ::
  "upstream \<Rightarrow> GithubToolArguments \<Rightarrow> handled" where
  "push_to_repo_try up a =
     (let c1 = Get ''/user'' in
      case up [] c1 of
        Rejected e \<Rightarrow> (Inl e, [c1])
      | Resolved user_data \<Rightarrow>
          (case get_prop user_data ''login'' of
             Inl e \<Rightarrow> (Inl e, [c1])
           | Inr user \<Rightarrow>
               let p = contents_path user (the (repo_name a)) (the (file_path a));
                   c2 = Get p;
                   sha = (case existing_file up [c1] p of
                            Inl e \<Rightarrow> JUndefined
                          | Inr s \<Rightarrow> s);
                   c3 = Put p (put_body (message a) (the (content a)) sha)
               in (case up [c1, c2] c3 of
                     Rejected e \<Rightarrow> (Inl e, [c1, c2, c3])
                   | Resolved response_data \<Rightarrow>
                       (Inr (success_result response_data), [c1, c2, c3]))))"

definition push_to_repo :: "upstream \<Rightarrow> GithubToolArguments option \<Rightarrow> handled" where
  "push_to_repo up args =
     (case args of
        None \<Rightarrow> (Inl (cannot_read ''undefined'' ''repo_name''), [])
      | Some a \<Rightarrow>
          if falsy (repo_name a) \<or> falsy (file_path a) \<or> falsy (content a)
          then (Inl (McpError InvalidParams
                       ''Repository name, file path, and content are required''), [])
          else
            (case push_to_repo_try up a of
               (Inl e, calls) \<Rightarrow> (catch_clause e, calls)
             | (Inr r, calls) \<Rightarrow> (Inr r, calls)))"

subsection \<open>The call-tool handler\<close>

definition CallTool :: "upstream \<Rightarrow> CallToolRequest \<Rightarrow> handled" where
  "CallTool up request =
     (if name request = ''get_user'' then get_user up (arguments request)
      else if name request = ''create_repo'' then create_repo up (arguments request)
      else if name request = ''push_to_repo'' then push_to_repo up (arguments request)
      else (Inl (McpError MethodNotFound (''Unknown tool: '' @ name request)), []))"

section \<open>Required fields, as the tool list declares them\<close>

text \<open>
  The argument validator in the words of the specification, to set against what the
  handlers do: a field is missing when the raw argument mapping does not have it or has it
  empty, and a request is answered for the first required field of the named tool, in the
  order of its declaration, that is missing.
\<close>

definition spec_missing :: "'a list option \<Rightarrow> bool" where
  "spec_missing v = (case v of None \<Rightarrow> True | Some s \<Rightarrow> length s = 0)"

definition spec_field_missing :: "GithubToolArguments \<Rightarrow> string \<Rightarrow> bool" where
  "spec_field_missing a k =
     (if k = ''username'' then spec_missing (username a)
      else if k = ''repo_name'' then spec_missing (repo_name a)
      else if k = ''description'' then spec_missing (description a)
      else if k = ''private'' then private_arg a = None
      else if k = ''file_path'' then spec_missing (file_path a)
      else if k = ''content'' then spec_missing (content a)
      else if k = ''message'' then spec_missing (message a)
      else True)"

definition spec_first_missing :: "CallToolRequest \<Rightarrow> string option" where
  "spec_first_missing request =
     (case find (\<lambda>t. tool_name t = name request) ListTools of
        None \<Rightarrow> None
      | Some t \<Rightarrow>
          (case arguments request of
             None \<Rightarrow> find (\<lambda>k. True) (required t)
           | Some a \<Rightarrow> find (spec_field_missing a) (required t)))"

section \<open>Example upstreams and requests\<close>

text \<open>An upstream that answers the calls of an invocation from a script, in order.\<close>

definition scripted :: "outcome list \<Rightarrow> upstream" where
  "scripted outcomes before c =
     (if length before < length outcomes then outcomes ! length before
      else Rejected (Error ''unexpected call''))"

definition no_arguments :: GithubToolArguments where
  "no_arguments =
     \<lparr>username = None, repo_name = None, description = None, private_arg = None,
      file_path = None, content = None, message = None\<rparr>"

text \<open>The code units of \<open>hello\<close>.\<close>

definition hello :: utf16 where
  "hello = [0x68, 0x65, 0x6C, 0x6C, 0x6F]"

definition hello_arguments :: GithubToolArguments where
  "hello_arguments =
     no_arguments\<lparr>repo_name := Some ''notes'', file_path := Some ''a.txt'',
                  content := Some hello\<rparr>"

definition push_hello :: CallToolRequest where
  "push_hello = \<lparr>name = ''push_to_repo'', arguments = Some hello_arguments\<rparr>"

definition octocat :: jsval where
  "octocat = JObj [(''login'', JStr ''octocat''), (''id'', JNum ''583231'')]"

definition not_found :: exn where
  "not_found =
     AxiosError (Some \<lparr>status = 404, data = JObj [(''message'', JStr ''Not Found'')]\<rparr>)
       ''Request failed with status code 404''"

definition committed :: jsval where
  "committed = JObj [(''commit'', JObj [(''sha'', JStr ''7638417'')])]"

definition push_without_repo :: CallToolRequest where
  "push_without_repo =
     \<lparr>name = ''push_to_repo'',
      arguments = Some (no_arguments\<lparr>file_path := Some ''a.txt'', content := Some hello\<rparr>)\<rparr>"

definition push_without_path :: CallToolRequest where
  "push_without_path =
     \<lparr>name = ''push_to_repo'',
      arguments = Some (no_arguments\<lparr>repo_name := Some ''notes'', content := Some hello\<rparr>)\<rparr>"

definition get_octocat :: CallToolRequest where
  "get_octocat =
     \<lparr>name = ''get_user'', arguments = Some (no_arguments\<lparr>username := Some ''octocat''\<rparr>)\<rparr>"

definition bad_gateway :: exn where
  "bad_gateway =
     AxiosError (Some \<lparr>status = 502, data = JStr ''Bad Gateway''\<rparr>)
       ''Request failed with status code 502''"

definition new_file_upstream :: upstream where
  "new_file_upstream = scripted [Resolved octocat, Rejected not_found, Resolved committed]"

definition existing_file_upstream :: upstream where
  "existing_file_upstream =
     scripted [Resolved octocat, Resolved (JObj [(''sha'', JStr ''abc123'')]), Resolved committed]"

definition null_lookup_upstream :: upstream where
  "null_lookup_upstream = scripted [Resolved octocat, Resolved JNull, Resolved committed]"

definition hello_path :: string where
  "hello_path = ''/repos/octocat/notes/contents/a.txt''"

definition unauthorized :: exn where
  "unauthorized =
     AxiosError (Some \<lparr>status = 401, data = JNull\<rparr>) ''Request failed with status code 401''"

text \<open>
  A string that is one high surrogate left alone, as the JSON text \<open>"\ud800"\<close> gives it,
  and the push of it.
\<close>

definition lone_surrogate :: utf16 where
  "lone_surrogate = [0xD800]"

definition push_lone_surrogate :: CallToolRequest where
  "push_lone_surrogate =
     \<lparr>name = ''push_to_repo'',
      arguments = Some (hello_arguments\<lparr>content := Some lone_surrogate\<rparr>)\<rparr>"

definition get_nobody :: CallToolRequest where
  "get_nobody = \<lparr>name = ''get_user'', arguments = Some (no_arguments\<lparr>username := Some []\<rparr>)\<rparr>"

definition create_x :: CallToolRequest where
  "create_x =
     \<lparr>name = ''create_repo'', arguments = Some (no_arguments\<lparr>repo_name := Some ''x''\<rparr>)\<rparr>"

definition created :: jsval where
  "created = JObj [(''name'', JStr ''x''), (''private'', JBool False)]"

section \<open>Base64 decodes to what was encoded\<close>

lemma index_of_nth: "distinct xs \<Longrightarrow> n < length xs \<Longrightarrow> index_of (xs ! n) xs = Some n"
proof (induction xs arbitrary: n)
  case Nil
  then show ?case by simp
next
  case (Cons y ys)
  show ?case
  proof (cases n)
    case 0
    then show ?thesis by simp
  next
    case (Suc m)
    with Cons.prems have "ys ! m \<in> set ys" "y \<notin> set ys" by simp_all
    then have "ys ! m \<noteq> y" by blast
    with Suc Cons show ?thesis by simp
  qed
qed

lemma base64_alphabet_length: "length base64_alphabet = 64"
  by (simp add: base64_alphabet_def)

lemma base64_alphabet_distinct: "distinct base64_alphabet"
  by (simp add: base64_alphabet_def)

lemma base64_alphabet_no_pad: "CHR ''='' \<notin> set base64_alphabet"
  by (simp add: base64_alphabet_def)

lemma base64_index_char: "n < 64 \<Longrightarrow> base64_index (base64_char n) = Some n"
  by (simp add: base64_index_def base64_char_def index_of_nth base64_alphabet_distinct
      base64_alphabet_length)

lemma base64_char_not_pad: "n < 64 \<Longrightarrow> base64_char n \<noteq> CHR ''=''"
proof -
  assume "n < 64"
  then have "base64_alphabet ! n \<in> set base64_alphabet"
    by (simp add: base64_alphabet_length)
  with base64_alphabet_no_pad show ?thesis
    unfolding base64_char_def by metis
qed

lemma sextet_1: "(a::nat) < 256 \<Longrightarrow> a div 4 < 64"
  by simp

lemma sextet_2: "(b::nat) < 256 \<Longrightarrow> a mod 4 * 16 + b div 16 < 64"
proof -
  assume "b < 256"
  then have "b div 16 < 16" by simp
  moreover have "a mod 4 < 4" by simp
  ultimately show ?thesis by linarith
qed

lemma sextet_3: "(c::nat) < 256 \<Longrightarrow> b mod 16 * 4 + c div 64 < 64"
proof -
  assume "c < 256"
  then have "c div 64 < 4" by simp
  moreover have "b mod 16 < 16" by simp
  ultimately show ?thesis by linarith
qed

lemma sextet_2_last: "(a::nat) mod 4 * 16 < 64"
  using sextet_2 [of 0 a] by simp

lemma sextet_3_last: "(b::nat) mod 16 * 4 < 64"
  using sextet_3 [of 0 b] by simp

lemma octet_1: "(b::nat) < 256 \<Longrightarrow> a div 4 * 4 + (a mod 4 * 16 + b div 16) div 16 = a"
proof -
  assume "b < 256"
  then have "b div 16 < 16" by simp
  then have "(a mod 4 * 16 + b div 16) div 16 = a mod 4" by simp
  then show ?thesis by simp
qed

lemma octet_2:
  "(b::nat) < 256 \<Longrightarrow> (c::nat) < 256 \<Longrightarrow>
   (a mod 4 * 16 + b div 16) mod 16 * 16 + (b mod 16 * 4 + c div 64) div 4 = b"
proof -
  assume "b < 256" "c < 256"
  then have "b div 16 < 16" "c div 64 < 4" by simp_all
  then have "(a mod 4 * 16 + b div 16) mod 16 = b div 16"
    and "(b mod 16 * 4 + c div 64) div 4 = b mod 16" by simp_all
  then show ?thesis by simp
qed

lemma octet_3: "(c::nat) < 256 \<Longrightarrow> (b mod 16 * 4 + c div 64) mod 4 * 64 + c mod 64 = c"
proof -
  assume "c < 256"
  then have "c div 64 < 4" by simp
  then have "(b mod 16 * 4 + c div 64) mod 4 = c div 64" by simp
  then show ?thesis by simp
qed

lemma decode_group:
  assumes "i < 64" "j < 64" "k < 64" "l < 64"
  shows "base64_decode (base64_char i # base64_char j # base64_char k # base64_char l # rest) =
         map_option (\<lambda>bs. (i * 4 + j div 16) # (j mod 16 * 16 + k div 4) # (k mod 4 * 64 + l) # bs)
           (base64_decode rest)"
  using assms
  by (simp add: base64_index_char base64_char_not_pad split: option.split)

lemma decode_last_two:
  assumes "i < 64" "j < 64" "k < 64"
  shows "base64_decode [base64_char i, base64_char j, base64_char k, CHR ''=''] =
         Some [i * 4 + j div 16, j mod 16 * 16 + k div 4]"
  using assms by (simp add: base64_index_char base64_char_not_pad)

lemma decode_last_one:
  assumes "i < 64" "j < 64"
  shows "base64_decode [base64_char i, base64_char j, CHR ''='', CHR ''=''] =
         Some [i * 4 + j div 16]"
  using assms by (simp add: base64_index_char)

lemma base64_roundtrip: "\<forall>b\<in>set bs. b < 256 \<Longrightarrow> base64_decode (base64 bs) = Some bs"
proof (induction bs rule: base64.induct)
  case (1 a b c bs)
  then have lt: "a < 256" "b < 256" "c < 256" and rest: "base64_decode (base64 bs) = Some bs"
    by simp_all
  have m: "c mod 64 < 64" by simp
  have "base64_decode (base64 (a # b # c # bs)) =
      map_option (\<lambda>bs. (a div 4 * 4 + (a mod 4 * 16 + b div 16) div 16) #
                       ((a mod 4 * 16 + b div 16) mod 16 * 16 + (b mod 16 * 4 + c div 64) div 4) #
                       ((b mod 16 * 4 + c div 64) mod 4 * 64 + c mod 64) # bs)
        (base64_decode (base64 bs))"
    unfolding base64.simps append_Cons append_Nil
    by (rule decode_group [OF sextet_1 [OF lt(1)] sextet_2 [OF lt(2)] sextet_3 [OF lt(3)] m])
  also have "\<dots> = Some (a # b # c # bs)"
    unfolding rest option.map octet_1 [OF lt(2)] octet_2 [OF lt(2) lt(3)] octet_3 [OF lt(3)] ..
  finally show ?case .
next
  case (2 a b)
  then have lt: "a < 256" "b < 256" by simp_all
  have "base64_decode (base64 [a, b]) =
      Some [a div 4 * 4 + (a mod 4 * 16 + b div 16) div 16,
            (a mod 4 * 16 + b div 16) mod 16 * 16 + (b mod 16 * 4) div 4]"
    unfolding base64.simps
    by (rule decode_last_two [OF sextet_1 [OF lt(1)] sextet_2 [OF lt(2)] sextet_3_last])
  also have "\<dots> = Some [a, b]"
    using octet_2 [OF lt(2), of 0 a] unfolding octet_1 [OF lt(2)] by simp
  finally show ?case .
next
  case (3 a)
  then have lt: "a < 256" by simp
  have "base64_decode (base64 [a]) = Some [a div 4 * 4 + (a mod 4 * 16) div 16]"
    unfolding base64.simps
    by (rule decode_last_one [OF sextet_1 [OF lt] sextet_2_last])
  also have "\<dots> = Some [a]"
    using octet_1 [of 0 a] by simp
  finally show ?case .
next
  case 4
  show ?case by simp
qed

section \<open>The bytes of a string read back as the string\<close>

lemma recompose_3: "(n::nat) div 4096 * 4096 + n div 64 mod 64 * 64 + n mod 64 = n"
proof -
  have "n div 4096 = n div 64 div 64" by (simp add: div_mult2_eq)
  then show ?thesis
    using div_mult_mod_eq [of "n div 64" 64] div_mult_mod_eq [of n 64] by linarith
qed

lemma recompose_4:
  "(n::nat) div 262144 * 262144 + n div 4096 mod 64 * 4096 + n div 64 mod 64 * 64 + n mod 64 = n"
proof -
  have "n div 262144 = n div 4096 div 64" by (simp add: div_mult2_eq)
  then show ?thesis
    using div_mult_mod_eq [of "n div 4096" 64] recompose_3 [of n] by linarith
qed

lemma unit_lt: "unat (c :: 16 word) < 65536"
proof -
  have "unat c < 2 ^ LENGTH(16)" by (rule unsigned_less)
  then show ?thesis by simp
qed

lemma decode_1:
  "b0 < 0x80 \<Longrightarrow>
   utf8_decode (b0 # rest) = map_option (\<lambda>cs. of_nat b0 # cs) (utf8_decode rest)"
  by simp

lemma decode_2:
  "\<not> b0 < 0x80 \<Longrightarrow> b0 < 0xE0 \<Longrightarrow>
   utf8_decode (b0 # b1 # rest) =
     map_option (\<lambda>cs. of_nat ((b0 - 0xC0) * 64 + (b1 - 0x80)) # cs) (utf8_decode rest)"
  by simp

lemma decode_3:
  "\<not> b0 < 0xE0 \<Longrightarrow> b0 < 0xF0 \<Longrightarrow>
   utf8_decode (b0 # b1 # b2 # rest) =
     map_option (\<lambda>cs. of_nat ((b0 - 0xE0) * 4096 + (b1 - 0x80) * 64 + (b2 - 0x80)) # cs)
       (utf8_decode rest)"
  by simp

lemma decode_4:
  "\<not> b0 < 0xF0 \<Longrightarrow>
   utf8_decode (b0 # b1 # b2 # b3 # rest) =
     map_option
       (\<lambda>cs. of_nat (0xD800 + ((b0 - 0xF0) * 262144 + (b1 - 0x80) * 4096 + (b2 - 0x80) * 64
                                + (b3 - 0x80) - 0x10000) div 1024)
           # of_nat (0xDC00 + ((b0 - 0xF0) * 262144 + (b1 - 0x80) * 4096 + (b2 - 0x80) * 64
                                + (b3 - 0x80) - 0x10000) mod 1024) # cs)
       (utf8_decode rest)"
  by (simp add: Let_def)

lemma decode_unit:
  assumes "n < 65536" "\<not> high_surrogate n" "\<not> low_surrogate n"
  shows "utf8_decode (utf8_unit n @ rest) = map_option (\<lambda>cs. of_nat n # cs) (utf8_decode rest)"
proof -
  consider "n < 0x80" | "0x80 \<le> n" "n < 0x800" | "0x800 \<le> n"
    by linarith
  then show ?thesis
  proof cases
    case 1
    then have u: "utf8_unit n = [n]" by (simp add: utf8_unit_def)
    show ?thesis unfolding u append_Cons append_Nil by (rule decode_1 [OF 1])
  next
    case 2
    then have "n div 64 < 32" by simp
    then have b: "\<not> 0xC0 + n div 64 < (0x80::nat)" "0xC0 + n div 64 < (0xE0::nat)" by simp_all
    have u: "utf8_unit n = [0xC0 + n div 64, 0x80 + n mod 64]"
      using 2 by (simp add: utf8_unit_def)
    have val: "(0xC0 + n div 64 - 0xC0) * 64 + (0x80 + n mod 64 - 0x80) = n" by simp
    show ?thesis unfolding u append_Cons append_Nil decode_2 [OF b] val ..
  next
    case 3
    from assms(1) have "n div 4096 < 16" by simp
    then have b: "\<not> 0xE0 + n div 4096 < (0xE0::nat)" "0xE0 + n div 4096 < (0xF0::nat)"
      by simp_all
    have u: "utf8_unit n = [0xE0 + n div 4096, 0x80 + n div 64 mod 64, 0x80 + n mod 64]"
      using 3 assms(2,3) by (simp add: utf8_unit_def)
    have val: "(0xE0 + n div 4096 - 0xE0) * 4096 + (0x80 + n div 64 mod 64 - 0x80) * 64
        + (0x80 + n mod 64 - 0x80) = n"
      using recompose_3 [of n] by simp
    show ?thesis unfolding u append_Cons append_Nil decode_3 [OF b] val ..
  qed
qed

lemma decode_pair:
  assumes "high_surrogate h" "low_surrogate l"
  shows "utf8_decode (utf8_pair h l @ rest) =
           map_option (\<lambda>cs. of_nat h # of_nat l # cs) (utf8_decode rest)"
proof -
  define cp where "cp = 0x10000 + (h - 0xD800) * 1024 + (l - 0xDC00)"
  have u: "utf8_pair h l =
      [0xF0 + cp div 262144, 0x80 + cp div 4096 mod 64, 0x80 + cp div 64 mod 64, 0x80 + cp mod 64]"
    by (simp add: utf8_pair_def cp_def Let_def)
  have b: "\<not> 0xF0 + cp div 262144 < (0xF0::nat)" by simp
  have l: "l - 0xDC00 < 1024" "0xDC00 \<le> l" and h: "0xD800 \<le> h"
    using assms unfolding high_surrogate_def low_surrogate_def by linarith+
  have "(0xF0 + cp div 262144 - 0xF0) * 262144 + (0x80 + cp div 4096 mod 64 - 0x80) * 4096
      + (0x80 + cp div 64 mod 64 - 0x80) * 64 + (0x80 + cp mod 64 - 0x80) = cp"
    using recompose_4 [of cp] by simp
  then have v: "(0xF0 + cp div 262144 - 0xF0) * 262144 + (0x80 + cp div 4096 mod 64 - 0x80) * 4096
      + (0x80 + cp div 64 mod 64 - 0x80) * 64 + (0x80 + cp mod 64 - 0x80) - 0x10000
      = (h - 0xD800) * 1024 + (l - 0xDC00)"
    by (simp add: cp_def)
  have d: "((h - 0xD800) * 1024 + (l - 0xDC00)) div 1024 = h - 0xD800"
    and m: "((h - 0xD800) * 1024 + (l - 0xDC00)) mod 1024 = l - 0xDC00"
    using l(1) by simp_all
  have hh: "0xD800 + (h - 0xD800) = h" and ll: "0xDC00 + (l - 0xDC00) = l"
    using h l(2) by simp_all
  show ?thesis
    unfolding u append_Cons append_Nil decode_4 [OF b] v d m hh ll ..
qed

lemma utf8_roundtrip: "well_formed cs \<Longrightarrow> utf8_decode (Buffer_from cs) = Some cs"
proof (induction cs rule: Buffer_from.induct)
  case (1 c d cs)
  show ?case
  proof (cases "high_surrogate (unat c) \<and> low_surrogate (unat d)")
    case True
    with 1 have "utf8_decode (Buffer_from cs) = Some cs" by simp
    with True show ?thesis
      by (simp add: decode_pair)
  next
    case False
    with 1 have "utf8_decode (Buffer_from (d # cs)) = Some (d # cs)"
      and "\<not> high_surrogate (unat c)" "\<not> low_surrogate (unat c)" by simp_all
    with False show ?thesis
      by (simp add: decode_unit unit_lt)
  qed
next
  case (2 c)
  then show ?case
    using decode_unit [of "unat c" "[]"] by (simp add: unit_lt)
next
  case 3
  show ?case by simp
qed

lemma utf8_unit_bytes: "n < 65536 \<Longrightarrow> \<forall>b\<in>set (utf8_unit n). b < 256"
proof -
  assume "n < 65536"
  then have "n div 4096 < 16" by simp
  moreover have "n < 0x800 \<Longrightarrow> n div 64 < 32" by simp
  moreover have "n mod 64 < 64" "n div 64 mod 64 < 64" by simp_all
  ultimately show ?thesis
    by (auto simp: utf8_unit_def)
qed

lemma utf8_pair_bytes:
  assumes "high_surrogate h" "low_surrogate l"
  shows "\<forall>b\<in>set (utf8_pair h l). b < 256"
proof -
  define cp where "cp = 0x10000 + (h - 0xD800) * 1024 + (l - 0xDC00)"
  have "h - 0xD800 < 1024" "l - 0xDC00 < 1024"
    using assms unfolding high_surrogate_def low_surrogate_def by linarith+
  then have "cp < 0x10000 + 1024 * 1024 + 1024" unfolding cp_def by linarith
  then have "cp div 262144 < 16" by simp
  moreover have "cp mod 64 < 64" "cp div 64 mod 64 < 64" "cp div 4096 mod 64 < 64" by simp_all
  ultimately show ?thesis
    by (auto simp: utf8_pair_def Let_def cp_def [symmetric])
qed

lemma Buffer_from_bytes: "\<forall>b\<in>set (Buffer_from cs). b < 256"
proof (induction cs rule: Buffer_from.induct)
  case (1 c d cs)
  show ?case
  proof (cases "high_surrogate (unat c) \<and> low_surrogate (unat d)")
    case True
    with 1 utf8_pair_bytes [of "unat c" "unat d"] show ?thesis by auto
  next
    case False
    with 1 utf8_unit_bytes [OF unit_lt, of c] show ?thesis by auto
  qed
next
  case (2 c)
  show ?case using utf8_unit_bytes [OF unit_lt, of c] by simp
next
  case 3
  show ?case by simp
qed

section \<open>What a handler returns after its last call\<close>

lemma get_prop_throws: "get_prop v k = Inl e \<Longrightarrow> catch_clause e = Inl e \<and> \<not> isAxiosError e"
  by (cases v) (auto simp: cannot_read_def)

lemma get_user_last:
  assumes "get_user up args = (res, calls)" "calls \<noteq> []"
  shows "case up (butlast calls) (last calls) of
           Rejected e \<Rightarrow> res = catch_clause e
         | Resolved d \<Rightarrow> res = Inr (success_result d)"
  using assms
  by (auto simp: get_user_def Let_def split: option.splits if_splits outcome.splits)

lemma create_repo_last:
  assumes "create_repo up args = (res, calls)" "calls \<noteq> []"
  shows "case up (butlast calls) (last calls) of
           Rejected e \<Rightarrow> res = catch_clause e
         | Resolved d \<Rightarrow> res = Inr (success_result d)"
  using assms
  by (auto simp: create_repo_def Let_def split: option.splits if_splits outcome.splits)

lemma push_to_repo_try_last:
  assumes "push_to_repo_try up a = (res, calls)"
  shows "calls \<noteq> [] \<and> (case up (butlast calls) (last calls) of
           Rejected e \<Rightarrow> res = Inl e
         | Resolved d \<Rightarrow> res = Inr (success_result d) \<or> (\<exists>e. res = Inl e \<and> catch_clause e = Inl e))"
  using assms
  by (auto simp: push_to_repo_try_def Let_def split: sum.splits outcome.splits dest: get_prop_throws)

lemma push_to_repo_last:
  assumes "push_to_repo up args = (res, calls)" "calls \<noteq> []"
  shows "case up (butlast calls) (last calls) of
           Rejected e \<Rightarrow> res = catch_clause e
         | Resolved d \<Rightarrow> res = Inr (success_result d) \<or> (\<exists>e. res = Inl e)"
proof -
  from assms obtain a where a: "args = Some a"
      "\<not> (falsy (repo_name a) \<or> falsy (file_path a) \<or> falsy (content a))"
    by (auto simp: push_to_repo_def split: option.splits if_splits)
  obtain res' calls' where t: "push_to_repo_try up a = (res', calls')"
    by (cases "push_to_repo_try up a")
  with a assms have c: "calls' = calls" and r: "res = (case res' of Inl e \<Rightarrow> catch_clause e | Inr r \<Rightarrow> Inr r)"
    by (auto simp: push_to_repo_def split: sum.splits)
  from push_to_repo_try_last [OF t] c r show ?thesis
    by (auto split: outcome.splits sum.splits)
qed

lemma CallTool_last:
  assumes "CallTool up request = (res, calls)" "calls \<noteq> []"
  shows "case up (butlast calls) (last calls) of
           Rejected e \<Rightarrow> res = catch_clause e
         | Resolved d \<Rightarrow> res = Inr (success_result d) \<or> (\<exists>e. res = Inl e)"
proof -
  consider "get_user up (arguments request) = (res, calls)"
    | "create_repo up (arguments request) = (res, calls)"
    | "push_to_repo up (arguments request) = (res, calls)"
    using assms by (auto simp: CallTool_def split: if_splits)
  then show ?thesis
  proof cases
    case 1
    from get_user_last [OF this assms(2)] show ?thesis by (auto split: outcome.splits)
  next
    case 2
    from create_repo_last [OF this assms(2)] show ?thesis by (auto split: outcome.splits)
  next
    case 3
    from push_to_repo_last [OF this assms(2)] show ?thesis .
  qed
qed


lemma push_to_repo_valid:
  assumes "repo_name a = Some repo" "file_path a = Some fpath" "content a = Some input"
    and "repo \<noteq> []" "fpath \<noteq> []" "input \<noteq> []"
  shows "push_to_repo up (Some a) =
          (case push_to_repo_try up a of
             (Inl e, calls) \<Rightarrow> (catch_clause e, calls)
           | (Inr r, calls) \<Rightarrow> (Inr r, calls))"
  using assms by (simp add: push_to_repo_def falsy_def)

lemma push_to_repo_try_steps:
  assumes "repo_name a = Some repo" "file_path a = Some fpath" "content a = Some input"
    and "up [] (Get ''/user'') = Resolved user_data"
    and "get_prop user_data ''login'' = Inr user"
    and "p = contents_path user repo fpath"
    and "sha = (case existing_file up [Get ''/user''] p of Inl e \<Rightarrow> JUndefined | Inr s \<Rightarrow> s)"
    and "c3 = Put p (put_body (message a) input sha)"
  shows "push_to_repo_try up a =
          (case up [Get ''/user'', Get p] c3 of
             Rejected e \<Rightarrow> Inl e
           | Resolved response_data \<Rightarrow> Inr (success_result response_data),
           [Get ''/user'', Get p, c3])"
  using assms by (simp add: push_to_repo_try_def Let_def split: outcome.split)

lemma push_to_repo_calls:
  assumes "repo_name a = Some repo" "file_path a = Some fpath" "content a = Some input"
    and "repo \<noteq> []" "fpath \<noteq> []" "input \<noteq> []"
  shows "snd (push_to_repo up (Some a)) = snd (push_to_repo_try up a)"
  unfolding push_to_repo_valid [OF assms]
  by (cases "push_to_repo_try up a") (simp split: sum.split)

section \<open>The examples, evaluated\<close>

lemmas example_defs =
  scripted_def no_arguments_def hello_arguments_def push_hello_def octocat_def not_found_def committed_def
  push_without_repo_def push_without_path_def get_octocat_def bad_gateway_def
  new_file_upstream_def existing_file_upstream_def null_lookup_upstream_def hello_path_def
  unauthorized_def push_lone_surrogate_def create_x_def created_def get_nobody_def

lemmas handler_defs =
  CallTool_def get_user_def create_repo_def push_to_repo_def push_to_repo_try_def
  existing_file_def contents_path_def put_body_def falsy_def optional_def
  error_message_def nullish_def

lemmas utf8_defs = utf8_unit_def utf8_pair_def high_surrogate_def low_surrogate_def

lemma hello_not_empty: "hello \<noteq> []"
  by (simp add: hello_def)

lemma Buffer_from_hello: "Buffer_from hello = [104, 101, 108, 108, 111]"
  by (simp add: hello_def utf8_defs)

lemma base64_hello: "base64 (Buffer_from hello) = ''aGVsbG8=''"
  by (simp add: Buffer_from_hello base64_char_def base64_alphabet_def)

lemma push_hello_new_file:
  "CallTool new_file_upstream push_hello =
     (Inr (success_result committed),
      [Get ''/user'', Get hello_path,
       Put hello_path
         (JObj [(''message'', JStr ''Update via GitHub MCP''),
                (''content'', JStr ''aGVsbG8=''), (''sha'', JUndefined)])])"
  by (simp add: example_defs handler_defs Let_def base64_hello hello_not_empty)

lemma push_hello_existing_file:
  "CallTool existing_file_upstream push_hello =
     (Inr (success_result committed),
      [Get ''/user'', Get hello_path,
       Put hello_path
         (JObj [(''message'', JStr ''Update via GitHub MCP''),
                (''content'', JStr ''aGVsbG8=''), (''sha'', JStr ''abc123'')])])"
  by (simp add: example_defs handler_defs Let_def base64_hello hello_not_empty)


lemma get_octocat_not_found:
  "CallTool (scripted [Rejected not_found]) get_octocat =
     (Inr \<lparr>result_content = [TextContent (Some ''GitHub API error: Not Found'')],
            isError = Some True\<rparr>, [Get ''/users/octocat''])"
  by (simp add: example_defs handler_defs Let_def error_result_def)

lemma get_octocat_bad_gateway:
  "CallTool (scripted [Rejected bad_gateway]) get_octocat =
     (Inr \<lparr>result_content =
              [TextContent (Some ''GitHub API error: Request failed with status code 502'')],
            isError = Some True\<rparr>, [Get ''/users/octocat''])"
  by (simp add: example_defs handler_defs Let_def error_result_def)

section \<open>Exceptions that leave push_to_repo\<close>









section \<open>Resources\<close>

text \<open>
  C10. A read-resource request, whatever its URI, throws the protocol error
  \<open>InvalidRequest\<close> and returns no content; listing resources and listing resource
  templates return empty collections.
\<close>

theorem resources_never_served:
  "isl (ReadResource uri)
   \<and> ReadResource uri = Inl (McpError InvalidRequest (''Invalid URI format: '' @ uri))
   \<and> resources (ListResources request) = []
   \<and> resourceTemplates (ListResourceTemplates request) = []"
  by (simp add: ReadResource_def ListResources_def ListResourceTemplates_def)

section \<open>Dispatch and validation\<close>

text \<open>
  C9. A call that names a tool outside the tool list throws the protocol error
  \<open>MethodNotFound\<close>, makes no upstream call and returns no result.
\<close>

theorem unknown_tool_rejected:
  assumes "name request \<notin> set (map tool_name ListTools)"
  shows "CallTool up request =
           (Inl (McpError MethodNotFound (''Unknown tool: '' @ name request)), [])"
  using assms by (simp add: ListTools_def CallTool_def)

theorem unknown_tool_rejected_witness:
  "name \<lparr>name = ''delete_repo'', arguments = None\<rparr> \<notin> set (map tool_name ListTools)
   \<and> CallTool new_file_upstream \<lparr>name = ''delete_repo'', arguments = None\<rparr> =
       (Inl (McpError MethodNotFound ''Unknown tool: delete_repo''), [])"
proof -
  have h: "name \<lparr>name = ''delete_repo'', arguments = None\<rparr> \<notin> set (map tool_name ListTools)"
    by (simp add: ListTools_def)
  show ?thesis
    using h unknown_tool_rejected [OF h, of new_file_upstream] by simp
qed

text \<open>
  C3, as the code has it. A call whose argument object leaves out a required field of
  its tool, or supplies it empty, throws the protocol error \<open>InvalidParams\<close> before any
  upstream call. \<open>get_user\<close> and \<open>create_repo\<close> name their one required field in the
  message; \<open>push_to_repo\<close> checks its three fields in the order of their declaration and
  throws one message that lists all three, whichever of them is missing.
\<close>

theorem missing_field_rejected:
  assumes "arguments request = Some a"
    and "spec_first_missing request = Some k"
  shows "CallTool up request =
           (Inl (McpError InvalidParams
                  (if name request = ''get_user'' then ''Username is required''
                   else if name request = ''create_repo'' then ''Repository name is required''
                   else ''Repository name, file path, and content are required'')), [])"
proof -
  have m: "spec_missing v = falsy v" for v :: "'b list option"
    by (cases v) (simp_all add: spec_missing_def falsy_def)
  consider "name request = ''get_user''" | "name request = ''create_repo''"
    | "name request = ''push_to_repo''"
    using assms(2) by (auto simp: spec_first_missing_def ListTools_def split: if_splits)
  then show ?thesis
  proof cases
    case 1
    with assms show ?thesis
      by (auto simp: spec_first_missing_def ListTools_def CallTool_def get_user_def
          spec_field_missing_def m split: if_splits)
  next
    case 2
    with assms show ?thesis
      by (auto simp: spec_first_missing_def ListTools_def CallTool_def create_repo_def
          spec_field_missing_def m split: if_splits)
  next
    case 3
    with assms show ?thesis
      by (auto simp: spec_first_missing_def ListTools_def CallTool_def push_to_repo_def
          spec_field_missing_def m split: if_splits)
  qed
qed

theorem missing_field_rejected_witness:
  "arguments push_without_path
     = Some (no_arguments\<lparr>repo_name := Some ''notes'', content := Some hello\<rparr>)
   \<and> spec_first_missing push_without_path = Some ''file_path''
   \<and> CallTool new_file_upstream push_without_path =
       (Inl (McpError InvalidParams ''Repository name, file path, and content are required''), [])
   \<and> arguments get_nobody = Some (no_arguments\<lparr>username := Some []\<rparr>)
   \<and> spec_first_missing get_nobody = Some ''username''
   \<and> CallTool new_file_upstream get_nobody =
       (Inl (McpError InvalidParams ''Username is required''), [])"
proof -
  have a1: "arguments push_without_path
      = Some (no_arguments\<lparr>repo_name := Some ''notes'', content := Some hello\<rparr>)"
    by (simp add: push_without_path_def)
  have h1: "spec_first_missing push_without_path = Some ''file_path''"
    by (simp add: spec_first_missing_def ListTools_def spec_field_missing_def spec_missing_def
        push_without_path_def no_arguments_def hello_def)
  have n1: "name push_without_path = ''push_to_repo''"
    by (simp add: push_without_path_def)
  have a2: "arguments get_nobody = Some (no_arguments\<lparr>username := Some []\<rparr>)"
    by (simp add: get_nobody_def)
  have h2: "spec_first_missing get_nobody = Some ''username''"
    by (simp add: spec_first_missing_def ListTools_def spec_field_missing_def spec_missing_def
        get_nobody_def no_arguments_def)
  have n2: "name get_nobody = ''get_user''"
    by (simp add: get_nobody_def)
  from missing_field_rejected [OF a1 h1, of new_file_upstream]
    missing_field_rejected [OF a2 h2, of new_file_upstream]
  show ?thesis
    using a1 h1 a2 h2 by (simp add: n1 n2)
qed

text \<open>
  C3 as stated fails: the error does not name the first missing field. A
  \<open>push_to_repo\<close> call without \<open>repo_name\<close> and one without \<open>file_path\<close> are
  answered alike.
\<close>

theorem push_error_same_for_each_field:
  "spec_first_missing push_without_repo = Some ''repo_name''
   \<and> spec_first_missing push_without_path = Some ''file_path''
   \<and> CallTool new_file_upstream push_without_repo = CallTool new_file_upstream push_without_path"
  by (simp add: spec_first_missing_def ListTools_def spec_field_missing_def spec_missing_def
      example_defs handler_defs hello_def)

section \<open>Results\<close>

text \<open>
  C4, as the code has it. When the upstream call of \<open>get_user\<close> or of
  \<open>create_repo\<close> succeeds, and when in \<open>push_to_repo\<close> the GET of \<open>/user\<close> succeeds
  with a body whose login can be read, one that is neither \<open>null\<close> nor \<open>undefined\<close>, and
  the PUT succeeds, the call returns a result with exactly one content item, whose text is
  \<open>JSON.stringify\<close> with a gap of two spaces of the data of the last response, and with
  no \<open>isError\<close>, which reads as false.
\<close>

theorem success_is_pretty_json:
  assumes "arguments request = Some a"
    and "(name request = ''get_user''
          \<and> (\<exists>u. username a = Some u \<and> u \<noteq> []
                 \<and> up [] (Get (''/users/'' @ u)) = Resolved response_data))
       \<or> (name request = ''create_repo''
          \<and> (\<exists>repo. repo_name a = Some repo \<and> repo \<noteq> []
                 \<and> up [] (Post ''/user/repos''
                             (JObj [(''name'', JStr repo),
                                    (''description'', optional (description a)),
                                    (''private'', JBool (case private_arg a of
                                                           None \<Rightarrow> False | Some b \<Rightarrow> b))]))
                     = Resolved response_data))
       \<or> (name request = ''push_to_repo''
          \<and> (\<exists>repo fpath input user_data user p sha.
                 repo_name a = Some repo \<and> file_path a = Some fpath \<and> content a = Some input
                 \<and> repo \<noteq> [] \<and> fpath \<noteq> [] \<and> input \<noteq> []
                 \<and> up [] (Get ''/user'') = Resolved user_data
                 \<and> get_prop user_data ''login'' = Inr user
                 \<and> p = contents_path user repo fpath
                 \<and> sha = (case existing_file up [Get ''/user''] p of
                             Inl e \<Rightarrow> JUndefined | Inr s \<Rightarrow> s)
                 \<and> up [Get ''/user'', Get p] (Put p (put_body (message a) input sha))
                     = Resolved response_data))"
  shows "fst (CallTool up request) =
           Inr \<lparr>result_content = [TextContent (JSON_stringify response_data)], isError = None\<rparr>
         \<and> \<not> is_error \<lparr>result_content = [TextContent (JSON_stringify response_data)],
                         isError = None\<rparr>"
proof -
  from assms(2) consider
      (get_user) u where "name request = ''get_user''" "username a = Some u" "u \<noteq> []"
        "up [] (Get (''/users/'' @ u)) = Resolved response_data"
    | (create_repo) repo where "name request = ''create_repo''" "repo_name a = Some repo"
        "repo \<noteq> []"
        "up [] (Post ''/user/repos''
                  (JObj [(''name'', JStr repo),
                         (''description'', optional (description a)),
                         (''private'', JBool (case private_arg a of
                                                None \<Rightarrow> False | Some b \<Rightarrow> b))]))
           = Resolved response_data"
    | (push_to_repo) repo fpath input user_data user p sha where
        "name request = ''push_to_repo''"
        "repo_name a = Some repo" "file_path a = Some fpath" "content a = Some input"
        "repo \<noteq> []" "fpath \<noteq> []" "input \<noteq> []"
        "up [] (Get ''/user'') = Resolved user_data" "get_prop user_data ''login'' = Inr user"
        "p = contents_path user repo fpath"
        "sha = (case existing_file up [Get ''/user''] p of Inl e \<Rightarrow> JUndefined | Inr s \<Rightarrow> s)"
        "up [Get ''/user'', Get p] (Put p (put_body (message a) input sha))
           = Resolved response_data"
    by (elim disjE exE conjE) blast+
  then have "fst (CallTool up request) = Inr (success_result response_data)"
  proof cases
    case get_user
    with assms(1) show ?thesis
      by (simp add: CallTool_def get_user_def falsy_def Let_def)
  next
    case create_repo
    with assms(1) show ?thesis
      by (simp add: CallTool_def create_repo_def falsy_def Let_def)
  next
    case push_to_repo
    have "push_to_repo_try up a =
        (Inr (success_result response_data),
         [Get ''/user'', Get p, Put p (put_body (message a) input sha)])"
      using push_to_repo_try_steps [OF push_to_repo(2,3,4,8,9,10,11) refl] push_to_repo(12)
      by simp
    with assms(1) push_to_repo(1) push_to_repo_valid [OF push_to_repo(2-7), of up]
    show ?thesis by (simp add: CallTool_def)
  qed
  then show ?thesis
    by (simp add: success_result_def is_error_def)
qed

theorem success_is_pretty_json_witness:
  "arguments get_octocat = Some (no_arguments\<lparr>username := Some ''octocat''\<rparr>)
   \<and> scripted [Resolved octocat] [] (Get (''/users/'' @ ''octocat'')) = Resolved octocat
   \<and> fst (CallTool (scripted [Resolved octocat]) get_octocat) =
       Inr \<lparr>result_content =
              [TextContent (Some (''{\<newline>  '' @ [CHR 0x22] @ ''login'' @ [CHR 0x22] @ '': ''
                 @ [CHR 0x22] @ ''octocat'' @ [CHR 0x22] @ '',\<newline>  '' @ [CHR 0x22] @ ''id''
                 @ [CHR 0x22] @ '': 583231\<newline>}''))],
            isError = None\<rparr>
   \<and> arguments create_x = Some (no_arguments\<lparr>repo_name := Some ''x''\<rparr>)
   \<and> scripted [Resolved created] []
        (Post ''/user/repos''
          (JObj [(''name'', JStr ''x''), (''description'', JUndefined), (''private'', JBool False)]))
       = Resolved created
   \<and> fst (CallTool (scripted [Resolved created]) create_x) =
       Inr \<lparr>result_content =
              [TextContent (Some (''{\<newline>  '' @ [CHR 0x22] @ ''name'' @ [CHR 0x22] @ '': ''
                 @ [CHR 0x22] @ ''x'' @ [CHR 0x22] @ '',\<newline>  '' @ [CHR 0x22] @ ''private''
                 @ [CHR 0x22] @ '': false\<newline>}''))],
            isError = None\<rparr>
   \<and> arguments push_hello = Some hello_arguments
   \<and> existing_file_upstream [] (Get ''/user'') = Resolved octocat
   \<and> get_prop octocat ''login'' = Inr (JStr ''octocat'')
   \<and> existing_file_upstream [Get ''/user'', Get hello_path]
        (Put hello_path (put_body None hello (JStr ''abc123''))) = Resolved committed
   \<and> fst (CallTool existing_file_upstream push_hello) =
       Inr \<lparr>result_content =
              [TextContent (Some (''{\<newline>  '' @ [CHR 0x22] @ ''commit'' @ [CHR 0x22]
                 @ '': {\<newline>    '' @ [CHR 0x22] @ ''sha'' @ [CHR 0x22] @ '': '' @ [CHR 0x22]
                 @ ''7638417'' @ [CHR 0x22] @ ''\<newline>  }\<newline>}''))],
            isError = None\<rparr>"
proof -
  have a1: "arguments get_octocat = Some (no_arguments\<lparr>username := Some ''octocat''\<rparr>)"
    by (simp add: get_octocat_def)
  have u1: "scripted [Resolved octocat] [] (Get (''/users/'' @ ''octocat'')) = Resolved octocat"
    by (simp add: scripted_def)
  have h1: "(name get_octocat = ''get_user''
        \<and> (\<exists>u. username (no_arguments\<lparr>username := Some ''octocat''\<rparr>) = Some u \<and> u \<noteq> []
              \<and> scripted [Resolved octocat] [] (Get (''/users/'' @ u)) = Resolved octocat))"
    by (simp add: get_octocat_def no_arguments_def scripted_def)
  have t1: "JSON_stringify octocat =
      Some (''{\<newline>  '' @ [CHR 0x22] @ ''login'' @ [CHR 0x22] @ '': ''
        @ [CHR 0x22] @ ''octocat'' @ [CHR 0x22] @ '',\<newline>  '' @ [CHR 0x22] @ ''id''
        @ [CHR 0x22] @ '': 583231\<newline>}'')"
    by (simp add: octocat_def JSON_stringify_def JSON_quote_def quote_char_def indent_def
        numeral_2_eq_2)
  have a2: "arguments create_x = Some (no_arguments\<lparr>repo_name := Some ''x''\<rparr>)"
    by (simp add: create_x_def)
  have u2: "scripted [Resolved created] []
        (Post ''/user/repos''
          (JObj [(''name'', JStr ''x''), (''description'', JUndefined), (''private'', JBool False)]))
       = Resolved created"
    by (simp add: scripted_def)
  have h2: "name create_x = ''create_repo''
        \<and> (\<exists>repo. repo_name (no_arguments\<lparr>repo_name := Some ''x''\<rparr>) = Some repo \<and> repo \<noteq> []
              \<and> scripted [Resolved created] []
                   (Post ''/user/repos''
                     (JObj [(''name'', JStr repo),
                            (''description'',
                             optional (description (no_arguments\<lparr>repo_name := Some ''x''\<rparr>))),
                            (''private'',
                             JBool (case private_arg (no_arguments\<lparr>repo_name := Some ''x''\<rparr>) of
                                      None \<Rightarrow> False | Some b \<Rightarrow> b))]))
                 = Resolved created)"
    by (simp add: create_x_def no_arguments_def scripted_def)
  have t2: "JSON_stringify created =
      Some (''{\<newline>  '' @ [CHR 0x22] @ ''name'' @ [CHR 0x22] @ '': ''
        @ [CHR 0x22] @ ''x'' @ [CHR 0x22] @ '',\<newline>  '' @ [CHR 0x22] @ ''private''
        @ [CHR 0x22] @ '': false\<newline>}'')"
    by (simp add: created_def JSON_stringify_def JSON_quote_def quote_char_def indent_def
        numeral_2_eq_2)
  have a3: "arguments push_hello = Some hello_arguments"
    by (simp add: push_hello_def)
  have f: "repo_name hello_arguments = Some ''notes''" "file_path hello_arguments = Some ''a.txt''"
      "content hello_arguments = Some hello" "message hello_arguments = None"
    by (simp_all add: hello_arguments_def no_arguments_def)
  have u3: "existing_file_upstream [] (Get ''/user'') = Resolved octocat"
    by (simp add: existing_file_upstream_def scripted_def)
  have l3: "get_prop octocat ''login'' = Inr (JStr ''octocat'')"
    by (simp add: octocat_def)
  have p3: "hello_path = contents_path (JStr ''octocat'') ''notes'' ''a.txt''"
    by (simp add: hello_path_def contents_path_def)
  have s3: "JStr ''abc123'' =
      (case existing_file existing_file_upstream [Get ''/user''] hello_path of
         Inl e \<Rightarrow> JUndefined | Inr s \<Rightarrow> s)"
    by (simp add: existing_file_def existing_file_upstream_def scripted_def)
  have w3: "existing_file_upstream [Get ''/user'', Get hello_path]
        (Put hello_path (put_body None hello (JStr ''abc123''))) = Resolved committed"
    by (simp add: existing_file_upstream_def scripted_def)
  have h3: "name push_hello = ''push_to_repo''
        \<and> (\<exists>repo fpath input user_data user p sha.
              repo_name hello_arguments = Some repo \<and> file_path hello_arguments = Some fpath
              \<and> content hello_arguments = Some input
              \<and> repo \<noteq> [] \<and> fpath \<noteq> [] \<and> input \<noteq> []
              \<and> existing_file_upstream [] (Get ''/user'') = Resolved user_data
              \<and> get_prop user_data ''login'' = Inr user
              \<and> p = contents_path user repo fpath
              \<and> sha = (case existing_file existing_file_upstream [Get ''/user''] p of
                          Inl e \<Rightarrow> JUndefined | Inr s \<Rightarrow> s)
              \<and> existing_file_upstream [Get ''/user'', Get p]
                   (Put p (put_body (message hello_arguments) input sha)) = Resolved committed)"
    using f u3 l3 p3 s3 w3 hello_not_empty
    by (simp add: push_hello_def)
  have t3: "JSON_stringify committed =
      Some (''{\<newline>  '' @ [CHR 0x22] @ ''commit'' @ [CHR 0x22]
        @ '': {\<newline>    '' @ [CHR 0x22] @ ''sha'' @ [CHR 0x22] @ '': '' @ [CHR 0x22]
        @ ''7638417'' @ [CHR 0x22] @ ''\<newline>  }\<newline>}'')"
    by (simp add: committed_def JSON_stringify_def JSON_quote_def quote_char_def indent_def
        numeral_2_eq_2)
  have r1: "fst (CallTool (scripted [Resolved octocat]) get_octocat) =
      Inr \<lparr>result_content = [TextContent (JSON_stringify octocat)], isError = None\<rparr>"
    using success_is_pretty_json [where request = get_octocat
        and up = "scripted [Resolved octocat]" and response_data = octocat, OF a1] h1
    by blast
  have r2: "fst (CallTool (scripted [Resolved created]) create_x) =
      Inr \<lparr>result_content = [TextContent (JSON_stringify created)], isError = None\<rparr>"
    using success_is_pretty_json [where request = create_x
        and up = "scripted [Resolved created]" and response_data = created, OF a2] h2
    by blast
  have r3: "fst (CallTool existing_file_upstream push_hello) =
      Inr \<lparr>result_content = [TextContent (JSON_stringify committed)], isError = None\<rparr>"
    using success_is_pretty_json [where request = push_hello
        and up = existing_file_upstream and response_data = committed, OF a3] h3
    by blast
  show ?thesis
    unfolding r1 r2 r3 t1 t2 t3 using a1 u1 a2 u2 a3 u3 l3 w3 by simp
qed

text \<open>
  C4 as stated fails: the one upstream call of this \<open>push_to_repo\<close> succeeds, with the
  body \<open>null\<close>, and the call returns no result; reading the login throws.
\<close>

theorem null_identity_no_result:
  "scripted [Resolved JNull] [] (Get ''/user'') = Resolved JNull
   \<and> CallTool (scripted [Resolved JNull]) push_hello =
       (Inl (cannot_read ''null'' ''login''), [Get ''/user''])"
  by (simp add: example_defs handler_defs hello_not_empty cannot_read_def)

text \<open>
  C5, as the code has it. When the last upstream call of an invocation is rejected with
  a response whose body has the message \<open>Not Found\<close>, the result is the one text
  \<open>GitHub API error: Not Found\<close> with \<open>isError\<close> true; when the body has no message,
  the text carries the message of the client's error instead. The last call is any call
  but the lookup of the existing file in \<open>push_to_repo\<close>, whose failure is caught.
\<close>

theorem last_call_failure_reported:
  assumes "CallTool up request = (res, calls)" and "calls \<noteq> []"
    and "up (butlast calls) (last calls) = Rejected (AxiosError (Some response) msg)"
  shows "(get_prop (data response) ''message'' = Inr (JStr ''Not Found'') \<longrightarrow>
            res = Inr \<lparr>result_content = [TextContent (Some ''GitHub API error: Not Found'')],
                       isError = Some True\<rparr>)
       \<and> (get_prop (data response) ''message'' = Inr JUndefined \<longrightarrow>
            res = Inr \<lparr>result_content = [TextContent (Some (''GitHub API error: '' @ msg))],
                       isError = Some True\<rparr>)"
  using CallTool_last [OF assms(1,2)] assms(3)
  by (simp add: error_message_def error_result_def nullish_def)

theorem last_call_failure_reported_witness:
  "scripted [Rejected not_found] (butlast [Get ''/users/octocat'']) (last [Get ''/users/octocat''])
     = Rejected (AxiosError (Some \<lparr>status = 404, data = JObj [(''message'', JStr ''Not Found'')]\<rparr>)
                  ''Request failed with status code 404'')
   \<and> get_prop (JObj [(''message'', JStr ''Not Found'')]) ''message'' = Inr (JStr ''Not Found'')
   \<and> fst (CallTool (scripted [Rejected not_found]) get_octocat) =
       Inr \<lparr>result_content = [TextContent (Some ''GitHub API error: Not Found'')],
             isError = Some True\<rparr>
   \<and> scripted [Rejected bad_gateway] (butlast [Get ''/users/octocat'']) (last [Get ''/users/octocat''])
     = Rejected (AxiosError (Some \<lparr>status = 502, data = JStr ''Bad Gateway''\<rparr>)
                  ''Request failed with status code 502'')
   \<and> get_prop (JStr ''Bad Gateway'') ''message'' = Inr JUndefined
   \<and> fst (CallTool (scripted [Rejected bad_gateway]) get_octocat) =
       Inr \<lparr>result_content =
               [TextContent (Some ''GitHub API error: Request failed with status code 502'')],
             isError = Some True\<rparr>"
proof -
  have h1: "scripted [Rejected not_found] (butlast [Get ''/users/octocat''])
        (last [Get ''/users/octocat''])
      = Rejected (AxiosError (Some \<lparr>status = 404, data = JObj [(''message'', JStr ''Not Found'')]\<rparr>)
                  ''Request failed with status code 404'')"
    by (simp add: scripted_def not_found_def)
  have h2: "scripted [Rejected bad_gateway] (butlast [Get ''/users/octocat''])
        (last [Get ''/users/octocat''])
      = Rejected (AxiosError (Some \<lparr>status = 502, data = JStr ''Bad Gateway''\<rparr>)
                  ''Request failed with status code 502'')"
    by (simp add: scripted_def bad_gateway_def)
  have ne: "[Get ''/users/octocat''] \<noteq> []" by simp
  show ?thesis
    using last_call_failure_reported [OF get_octocat_not_found ne h1]
      last_call_failure_reported [OF get_octocat_bad_gateway ne h2] h1 h2
    by (simp add: get_octocat_not_found get_octocat_bad_gateway)
qed

text \<open>
  C5 as stated fails: the lookup of the existing file is an upstream call, it is
  rejected with \<open>Not Found\<close>, and the call returns the result of the write, with no
  \<open>isError\<close>.
\<close>

theorem lookup_not_found_not_reported:
  "new_file_upstream [Get ''/user''] (Get hello_path) =
     Rejected (AxiosError (Some \<lparr>status = 404, data = JObj [(''message'', JStr ''Not Found'')]\<rparr>)
                ''Request failed with status code 404'')
   \<and> Get hello_path \<in> set (snd (CallTool new_file_upstream push_hello))
   \<and> fst (CallTool new_file_upstream push_hello) = Inr (success_result committed)
   \<and> \<not> is_error (success_result committed)"
  by (simp add: push_hello_new_file)
    (simp add: new_file_upstream_def scripted_def not_found_def success_result_def is_error_def)

section \<open>create_repo\<close>

text \<open>
  C7. A \<open>create_repo\<close> call that supplies only \<open>repo_name = "x"\<close> makes one upstream
  call, the POST to \<open>/user/repos\<close> with the body
  \<open>{name: "x", description: undefined, private: false}\<close>.
\<close>

theorem create_repo_default_body:
  "snd (CallTool up \<lparr>name = ''create_repo'',
                      arguments = Some (no_arguments\<lparr>repo_name := Some ''x''\<rparr>)\<rparr>) =
     [Post ''/user/repos''
        (JObj [(''name'', JStr ''x''), (''description'', JUndefined), (''private'', JBool False)])]"
  by (simp add: CallTool_def create_repo_def no_arguments_def falsy_def optional_def Let_def
      split: outcome.split)

section \<open>push_to_repo\<close>

text \<open>
  C6. When a \<open>push_to_repo\<close> call with its three required fields finds, at the path
  built from the login of the identity response, a file whose \<open>sha\<close> is \<open>abc123\<close>,
  it makes exactly three upstream calls in order, the GET of \<open>/user\<close>, the GET of the
  contents path and the PUT to it, and the body of the PUT has \<open>sha: "abc123"\<close>.
\<close>

theorem push_existing_file_sends_sha:
  assumes "name request = ''push_to_repo''" and "arguments request = Some a"
    and "repo_name a = Some repo" and "file_path a = Some fpath" and "content a = Some input"
    and "repo \<noteq> []" and "fpath \<noteq> []" and "input \<noteq> []"
    and "up [] (Get ''/user'') = Resolved user_data"
    and "get_prop user_data ''login'' = Inr user"
    and "p = contents_path user repo fpath"
    and "up [Get ''/user''] (Get p) = Resolved file_data"
    and "get_prop file_data ''sha'' = Inr (JStr ''abc123'')"
  shows "\<exists>body. snd (CallTool up request) = [Get ''/user'', Get p, Put p body]
           \<and> get_prop body ''sha'' = Inr (JStr ''abc123'')"
proof -
  have sha: "JStr ''abc123'' =
      (case existing_file up [Get ''/user''] p of Inl e \<Rightarrow> JUndefined | Inr s \<Rightarrow> s)"
    using assms(12,13) by (simp add: existing_file_def)
  have "snd (push_to_repo_try up a) =
      [Get ''/user'', Get p, Put p (put_body (message a) input (JStr ''abc123''))]"
    using push_to_repo_try_steps [OF assms(3,4,5,9,10,11) sha refl] by simp
  then have "snd (CallTool up request) =
      [Get ''/user'', Get p, Put p (put_body (message a) input (JStr ''abc123''))]"
    using assms(1,2) push_to_repo_calls [OF assms(3-8), of up]
    by (simp add: CallTool_def)
  moreover have "get_prop (put_body (message a) input (JStr ''abc123'')) ''sha'' = Inr (JStr ''abc123'')"
    by (simp add: put_body_def)
  ultimately show ?thesis by blast
qed

theorem push_existing_file_sends_sha_witness:
  "name push_hello = ''push_to_repo'' \<and> arguments push_hello = Some hello_arguments
   \<and> repo_name hello_arguments = Some ''notes'' \<and> file_path hello_arguments = Some ''a.txt''
   \<and> content hello_arguments = Some hello
   \<and> existing_file_upstream [] (Get ''/user'') = Resolved octocat
   \<and> get_prop octocat ''login'' = Inr (JStr ''octocat'')
   \<and> hello_path = contents_path (JStr ''octocat'') ''notes'' ''a.txt''
   \<and> existing_file_upstream [Get ''/user''] (Get hello_path)
       = Resolved (JObj [(''sha'', JStr ''abc123'')])
   \<and> get_prop (JObj [(''sha'', JStr ''abc123'')]) ''sha'' = Inr (JStr ''abc123'')
   \<and> (\<exists>body. snd (CallTool existing_file_upstream push_hello)
                 = [Get ''/user'', Get hello_path, Put hello_path body]
              \<and> get_prop body ''sha'' = Inr (JStr ''abc123''))"
proof -
  have h1: "name push_hello = ''push_to_repo''"
    and h2: "arguments push_hello = Some hello_arguments"
    by (simp_all add: push_hello_def)
  have h3: "repo_name hello_arguments = Some ''notes''"
    and h4: "file_path hello_arguments = Some ''a.txt''"
    and h5: "content hello_arguments = Some hello"
    by (simp_all add: hello_arguments_def no_arguments_def)
  have h6: "''notes'' \<noteq> []" and h7: "''a.txt'' \<noteq> []" and h8: "hello \<noteq> []"
    by (simp_all add: hello_not_empty)
  have h9: "existing_file_upstream [] (Get ''/user'') = Resolved octocat"
    by (simp add: existing_file_upstream_def scripted_def)
  have h10: "get_prop octocat ''login'' = Inr (JStr ''octocat'')"
    by (simp add: octocat_def)
  have h11: "hello_path = contents_path (JStr ''octocat'') ''notes'' ''a.txt''"
    by (simp add: hello_path_def contents_path_def)
  have h12: "existing_file_upstream [Get ''/user''] (Get hello_path)
      = Resolved (JObj [(''sha'', JStr ''abc123'')])"
    by (simp add: existing_file_upstream_def scripted_def)
  have h13: "get_prop (JObj [(''sha'', JStr ''abc123'')]) ''sha'' = Inr (JStr ''abc123'')"
    by simp
  from push_existing_file_sends_sha [OF h1 h2 h3 h4 h5 h6 h7 h8 h9 h10 h11 h12 h13]
  show ?thesis
    using h1 h2 h3 h4 h5 h9 h10 h11 h12 h13 by blast
qed

text \<open>
  C2, as the code has it. When a \<open>push_to_repo\<close> call with its three required fields
  finds no file at the path, that is when the GET of the contents path is rejected, it has
  made three upstream calls, the GET of \<open>/user\<close>, the rejected GET of the contents path
  and the PUT to it. The body of the PUT holds \<open>sha: undefined\<close>, so that its JSON text
  has no \<open>sha\<close>, and what the call returns or throws is decided by the outcome of the PUT
  alone.
\<close>

theorem push_new_file_three_calls:
  assumes "name request = ''push_to_repo''" and "arguments request = Some a"
    and "repo_name a = Some repo" and "file_path a = Some fpath" and "content a = Some input"
    and "repo \<noteq> []" and "fpath \<noteq> []" and "input \<noteq> []"
    and "up [] (Get ''/user'') = Resolved user_data"
    and "get_prop user_data ''login'' = Inr user"
    and "p = contents_path user repo fpath"
    and "up [Get ''/user''] (Get p) = Rejected e"
    and "msg = (case message a of None \<Rightarrow> ''Update via GitHub MCP'' | Some m \<Rightarrow> m)"
    and "body = JObj [(''message'', JStr msg),
                      (''content'', JStr (base64 (Buffer_from input))),
                      (''sha'', JUndefined)]"
  shows "CallTool up request =
           (case up [Get ''/user'', Get p] (Put p body) of
              Resolved response_data \<Rightarrow> Inr (success_result response_data)
            | Rejected e' \<Rightarrow> catch_clause e',
            [Get ''/user'', Get p, Put p body])
         \<and> JSON_stringify body =
             JSON_stringify (JObj [(''message'', JStr msg),
                                   (''content'', JStr (base64 (Buffer_from input)))])"
proof -
  have sha: "JUndefined =
      (case existing_file up [Get ''/user''] p of Inl e \<Rightarrow> JUndefined | Inr s \<Rightarrow> s)"
    using assms(12) by (simp add: existing_file_def)
  have b: "Put p body = Put p (put_body (message a) input JUndefined)"
    using assms(13,14) by (simp add: put_body_def)
  have "CallTool up request =
           (case up [Get ''/user'', Get p] (Put p body) of
              Resolved response_data \<Rightarrow> Inr (success_result response_data)
            | Rejected e' \<Rightarrow> catch_clause e',
            [Get ''/user'', Get p, Put p body])"
    using assms(1,2) push_to_repo_valid [OF assms(3-8), of up]
      push_to_repo_try_steps [OF assms(3,4,5,9,10,11) sha b]
    by (simp add: CallTool_def split: outcome.split)
  moreover have "JSON_stringify body =
      JSON_stringify (JObj [(''message'', JStr msg),
                            (''content'', JStr (base64 (Buffer_from input)))])"
    using assms(14) by (simp add: JSON_stringify_def)
  ultimately show ?thesis by simp
qed

theorem push_new_file_three_calls_witness:
  "name push_hello = ''push_to_repo'' \<and> arguments push_hello = Some hello_arguments
   \<and> repo_name hello_arguments = Some ''notes'' \<and> file_path hello_arguments = Some ''a.txt''
   \<and> content hello_arguments = Some hello \<and> message hello_arguments = None
   \<and> new_file_upstream [] (Get ''/user'') = Resolved octocat
   \<and> get_prop octocat ''login'' = Inr (JStr ''octocat'')
   \<and> hello_path = contents_path (JStr ''octocat'') ''notes'' ''a.txt''
   \<and> new_file_upstream [Get ''/user''] (Get hello_path) = Rejected not_found
   \<and> base64 (Buffer_from hello) = ''aGVsbG8=''
   \<and> CallTool new_file_upstream push_hello =
       (Inr (success_result committed),
        [Get ''/user'', Get hello_path,
         Put hello_path
           (JObj [(''message'', JStr ''Update via GitHub MCP''),
                  (''content'', JStr ''aGVsbG8=''), (''sha'', JUndefined)])])
   \<and> JSON_stringify (JObj [(''message'', JStr ''Update via GitHub MCP''),
                            (''content'', JStr ''aGVsbG8=''), (''sha'', JUndefined)]) =
       JSON_stringify (JObj [(''message'', JStr ''Update via GitHub MCP''),
                             (''content'', JStr ''aGVsbG8='')])"
proof -
  have h1: "name push_hello = ''push_to_repo''"
    and h2: "arguments push_hello = Some hello_arguments"
    by (simp_all add: push_hello_def)
  have h3: "repo_name hello_arguments = Some ''notes''"
    and h4: "file_path hello_arguments = Some ''a.txt''"
    and h5: "content hello_arguments = Some hello"
    and m: "message hello_arguments = None"
    by (simp_all add: hello_arguments_def no_arguments_def)
  have h6: "''notes'' \<noteq> []" and h7: "''a.txt'' \<noteq> []" and h8: "hello \<noteq> []"
    by (simp_all add: hello_not_empty)
  have h9: "new_file_upstream [] (Get ''/user'') = Resolved octocat"
    by (simp add: new_file_upstream_def scripted_def)
  have h10: "get_prop octocat ''login'' = Inr (JStr ''octocat'')"
    by (simp add: octocat_def)
  have h11: "hello_path = contents_path (JStr ''octocat'') ''notes'' ''a.txt''"
    by (simp add: hello_path_def contents_path_def)
  have h12: "new_file_upstream [Get ''/user''] (Get hello_path) = Rejected not_found"
    by (simp add: new_file_upstream_def scripted_def)
  have h13: "''Update via GitHub MCP'' =
      (case message hello_arguments of None \<Rightarrow> ''Update via GitHub MCP'' | Some m \<Rightarrow> m)"
    by (simp add: m)
  have h14: "JObj [(''message'', JStr ''Update via GitHub MCP''),
                   (''content'', JStr ''aGVsbG8=''), (''sha'', JUndefined)] =
      JObj [(''message'', JStr ''Update via GitHub MCP''),
            (''content'', JStr (base64 (Buffer_from hello))), (''sha'', JUndefined)]"
    by (simp add: base64_hello)
  have put: "new_file_upstream [Get ''/user'', Get hello_path]
      (Put hello_path
        (JObj [(''message'', JStr ''Update via GitHub MCP''),
               (''content'', JStr ''aGVsbG8=''), (''sha'', JUndefined)])) = Resolved committed"
    by (simp add: new_file_upstream_def scripted_def)
  from push_new_file_three_calls [OF h1 h2 h3 h4 h5 h6 h7 h8 h9 h10 h11 h12 h13 h14]
  show ?thesis
    using h1 h2 h3 h4 h5 m h9 h10 h11 h12 by (simp add: put base64_hello)
qed

text \<open>
  C2 as stated fails: with no file at the path the call has made three upstream calls,
  not two.
\<close>

theorem push_new_file_not_two_calls:
  "new_file_upstream [Get ''/user''] (Get hello_path) = Rejected not_found
   \<and> snd (CallTool new_file_upstream push_hello) =
       [Get ''/user'', Get hello_path,
        Put hello_path
          (JObj [(''message'', JStr ''Update via GitHub MCP''),
                 (''content'', JStr ''aGVsbG8=''), (''sha'', JUndefined)])]
   \<and> length (snd (CallTool new_file_upstream push_hello)) \<noteq> 2"
  by (simp add: push_hello_new_file) (simp add: new_file_upstream_def scripted_def)

text \<open>
  C8, as the code has it. Every PUT that a call makes carries as \<open>content\<close> the base64
  text of \<open>Buffer.from\<close> of the \<open>content\<close> argument, the bytes of the string in UTF-8
  with U+FFFD written for each surrogate left alone, and decoding that text gives back
  exactly those bytes. For a string with no surrogate left alone they are the bytes of the
  input itself: read as UTF-8 they are the input again.
\<close>

theorem content_base64_roundtrip:
  assumes "arguments request = Some a"
    and "content a = Some input"
    and "Put p body \<in> set (snd (CallTool up request))"
  shows "get_prop body ''content'' = Inr (JStr (base64 (Buffer_from input)))
       \<and> base64_decode (base64 (Buffer_from input)) = Some (Buffer_from input)
       \<and> (well_formed input \<longrightarrow> utf8_decode (Buffer_from input) = Some input)"
proof -
  have "name request = ''push_to_repo''"
    using assms(1,3)
    by (auto simp: CallTool_def get_user_def create_repo_def Let_def
        split: if_splits option.splits outcome.splits)
  then have "Put p body \<in> set (snd (push_to_repo up (Some a)))"
    using assms(1,3) by (simp add: CallTool_def)
  then have "Put p body \<in> set (snd (push_to_repo_try up a))"
    by (auto simp: push_to_repo_def split: if_splits prod.splits sum.splits)
  then have "\<exists>sha. body = put_body (message a) input sha"
    using assms(2)
    by (auto simp: push_to_repo_try_def Let_def split: outcome.splits sum.splits)
  then have "get_prop body ''content'' = Inr (JStr (base64 (Buffer_from input)))"
    by (auto simp: put_body_def)
  moreover have "base64_decode (base64 (Buffer_from input)) = Some (Buffer_from input)"
    by (rule base64_roundtrip [OF Buffer_from_bytes])
  ultimately show ?thesis
    using utf8_roundtrip [of input] by blast
qed

theorem content_base64_roundtrip_witness:
  "arguments push_hello = Some hello_arguments
   \<and> content hello_arguments = Some hello
   \<and> hello = [0x68, 0x65, 0x6C, 0x6C, 0x6F]
   \<and> Put hello_path
        (JObj [(''message'', JStr ''Update via GitHub MCP''),
               (''content'', JStr ''aGVsbG8=''), (''sha'', JUndefined)])
       \<in> set (snd (CallTool new_file_upstream push_hello))
   \<and> well_formed hello
   \<and> Buffer_from hello = [104, 101, 108, 108, 111]
   \<and> base64 [104, 101, 108, 108, 111] = ''aGVsbG8=''
   \<and> base64_decode ''aGVsbG8='' = Some [104, 101, 108, 108, 111]
   \<and> utf8_decode [104, 101, 108, 108, 111] = Some hello"
proof -
  have h1: "arguments push_hello = Some hello_arguments"
    by (simp add: push_hello_def)
  have h2: "content hello_arguments = Some hello"
    by (simp add: hello_arguments_def no_arguments_def)
  have h3: "Put hello_path
        (JObj [(''message'', JStr ''Update via GitHub MCP''),
               (''content'', JStr ''aGVsbG8=''), (''sha'', JUndefined)])
       \<in> set (snd (CallTool new_file_upstream push_hello))"
    by (simp add: push_hello_new_file)
  have w: "well_formed hello"
    by (simp add: hello_def utf8_defs)
  from content_base64_roundtrip [OF h1 h2 h3] w
  have r: "base64_decode (base64 (Buffer_from hello)) = Some (Buffer_from hello)"
    and u: "utf8_decode (Buffer_from hello) = Some hello"
    by blast+
  have e: "base64 [104, 101, 108, 108, 111] = ''aGVsbG8=''"
    using base64_hello unfolding Buffer_from_hello .
  have d: "base64_decode ''aGVsbG8='' = Some [104, 101, 108, 108, 111]"
    using r unfolding Buffer_from_hello e .
  have u': "utf8_decode [104, 101, 108, 108, 111] = Some hello"
    using u unfolding Buffer_from_hello .
  show ?thesis
    by (intro conjI h1 h2 hello_def h3 w Buffer_from_hello e d u')
qed

text \<open>
  C8 as stated fails: for the string that is one high surrogate left alone the
  transmitted content decodes to \<open>EF BF BD\<close>, the bytes of U+FFFD, and the input is not
  what they read as.
\<close>

theorem lone_surrogate_not_recovered:
  "snd (CallTool new_file_upstream push_lone_surrogate) =
     [Get ''/user'', Get hello_path,
      Put hello_path
        (JObj [(''message'', JStr ''Update via GitHub MCP''),
               (''content'', JStr ''77+9''), (''sha'', JUndefined)])]
   \<and> base64_decode ''77+9'' = Some [0xEF, 0xBF, 0xBD]
   \<and> utf8_decode [0xEF, 0xBF, 0xBD] = Some [0xFFFD]
   \<and> lone_surrogate = [0xD800]
   \<and> [0xFFFD] \<noteq> lone_surrogate"
proof -
  have b: "Buffer_from lone_surrogate = [0xEF, 0xBF, 0xBD]"
    by (simp add: lone_surrogate_def utf8_defs)
  have e: "base64 (Buffer_from lone_surrogate) = ''77+9''"
    by (simp add: b base64_char_def base64_alphabet_def)
  have "base64_decode (base64 (Buffer_from lone_surrogate)) = Some (Buffer_from lone_surrogate)"
    by (rule base64_roundtrip [OF Buffer_from_bytes])
  then have "base64_decode ''77+9'' = Some (Buffer_from lone_surrogate)"
    unfolding e .
  then have d: "base64_decode ''77+9'' = Some [0xEF, 0xBF, 0xBD]"
    unfolding b .
  have n: "lone_surrogate \<noteq> []"
    by (simp add: lone_surrogate_def)
  have c: "snd (CallTool new_file_upstream push_lone_surrogate) =
     [Get ''/user'', Get hello_path,
      Put hello_path
        (JObj [(''message'', JStr ''Update via GitHub MCP''),
               (''content'', JStr ''77+9''), (''sha'', JUndefined)])]"
    by (simp add: example_defs handler_defs Let_def e n)
  have r: "utf8_decode [0xEF, 0xBF, 0xBD] = Some [0xFFFD]"
    by simp
  have x: "[0xFFFD] \<noteq> lone_surrogate"
    by (simp add: lone_surrogate_def)
  show ?thesis
    by (intro conjI c d r lone_surrogate_def x)
qed




end
